theory Spec2Isabelle
  imports Complex_Main
begin

section \<open>The animation scheduling and interpolation engine of mini-manim\<close>

text \<open>
  A shallow embedding of \<^verbatim>\<open>mini_manim/core/timeline.py\<close>,
  \<^verbatim>\<open>mini_manim/core/animation.py\<close> and the animation kinds of
  \<^verbatim>\<open>mini_manim/animations/\<close>.

  Python floats are modelled as the real numbers: arithmetic is exact, there is no
  rounding, no infinity and no NaN. Python integers are \<open>int\<close>, list indices of
  \<^verbatim>\<open>enumerate\<close> are \<open>nat\<close>. An exception is a value \<open>Inl e\<close> of a sum type.

  Every definition keeps the expression of the code, operation by operation, and the
  statements about them are worded with these same expressions: a slice ends at
  \<open>i * per + per\<close> as the code computes it, a start time is the total accumulated from
  zero in block order, an interpolated value is \<open>start + alpha * (end - start)\<close>. What
  is true of the exact operations only (that \<open>i * per + per\<close> is \<open>(i + 1) * per\<close>, that
  \<open>len * (duration / len)\<close> is the duration, that \<open>start + 1 * (end - start)\<close> is the
  end) is not among the statements.
\<close>

subsection \<open>Exceptions and float operations that can raise\<close>

datatype error = ZeroDivisionError | KeyError | PreconditionViolation

text \<open>Python's \<^verbatim>\<open>x / y\<close> on floats raises \<^verbatim>\<open>ZeroDivisionError\<close> when \<^verbatim>\<open>y\<close> is zero.\<close>

definition truediv :: "real \<Rightarrow> real \<Rightarrow> error + real" where
  "truediv x y = (if y = 0 then Inl ZeroDivisionError else Inr (x / y))"

text \<open>Python's \<^verbatim>\<open>int(x)\<close> on a float truncates toward zero.\<close>

definition py_int :: "real \<Rightarrow> int" where
  "py_int x = (if 0 \<le> x then \<lfloor>x\<rfloor> else \<lceil>x\<rceil>)"

subsection \<open>Attribute values, target objects, snapshots\<close>

text \<open>
  An attribute value is a float or a two-dimensional numpy array. Arithmetic between
  them is numpy's: elementwise, a float being broadcast over an array.
\<close>

datatype val = Num real | Vec real real

fun broadcast :: "(real \<Rightarrow> real \<Rightarrow> real) \<Rightarrow> val \<Rightarrow> val \<Rightarrow> val" where
  "broadcast f (Num a) (Num b) = Num (f a b)"
| "broadcast f (Num a) (Vec x y) = Vec (f a x) (f a y)"
| "broadcast f (Vec x y) (Num b) = Vec (f x b) (f y b)"
| "broadcast f (Vec x y) (Vec u v) = Vec (f x u) (f y v)"

definition vadd :: "val \<Rightarrow> val \<Rightarrow> val" where
  "vadd = broadcast (+)"

definition vsub :: "val \<Rightarrow> val \<Rightarrow> val" where
  "vsub = broadcast (-)"

definition vmul :: "val \<Rightarrow> val \<Rightarrow> val" where
  "vmul = broadcast (*)"

fun same_shape :: "val \<Rightarrow> val \<Rightarrow> bool" where
  "same_shape (Num a) (Num b) = True"
| "same_shape (Vec x y) (Vec u v) = True"
| "same_shape v w = False"

text \<open>
  Modelled from the spec: the class \<^verbatim>\<open>MObject\<close> of the target object is not
  among the sources. By section 3 it is a mutable bag of the attributes position,
  rotation, scale factor and opacity; the fields are named as the animation kinds read
  and write them.
\<close>

record mobject =
  position :: val
  rotation :: val
  scale_factor :: val
  opacity :: val

text \<open>A snapshot is a dict from attribute name to value.\<close>

type_synonym snapshot = "string \<rightharpoonup> val"

definition lookup :: "snapshot \<Rightarrow> string \<Rightarrow> error + val" where
  "lookup d k = (case d k of None \<Rightarrow> Inl KeyError | Some v \<Rightarrow> Inr v)"

subsection \<open>The animation kinds\<close>

text \<open>
  \<^verbatim>\<open>Move(mobject, target, ...)\<close>, \<^verbatim>\<open>Scale(mobject, target_scale, ...)\<close>,
  \<^verbatim>\<open>Rotate(mobject, angle, ...)\<close>, \<^verbatim>\<open>FadeIn(mobject, ...)\<close> and
  \<^verbatim>\<open>FadeOut(mobject, ...)\<close>: the subclass and the parameter it stores.
\<close>

datatype anim_kind = Move val | Scale real | Rotate real | FadeIn | FadeOut

text \<open>
  The method \<^verbatim>\<open>_capture_final_state\<close> of each kind. The dict
  \<^verbatim>\<open>self._initial_state\<close> is the second argument; a missing key raises.
\<close>

fun capture_final_state :: "anim_kind \<Rightarrow> snapshot \<Rightarrow> error + snapshot" where
  "capture_final_state (Move target) init = Inr [''position'' \<mapsto> target]"
| "capture_final_state (Scale target_scale) init =
     (case lookup init ''scale_factor'' of
        Inl e \<Rightarrow> Inl e
      | Inr initial_scale \<Rightarrow> Inr [''scale_factor'' \<mapsto> vmul initial_scale (Num target_scale)])"
| "capture_final_state (Rotate angle) init =
     (case lookup init ''rotation'' of
        Inl e \<Rightarrow> Inl e
      | Inr initial_rotation \<Rightarrow> Inr [''rotation'' \<mapsto> vadd initial_rotation (Num angle)])"
| "capture_final_state FadeIn init = Inr [''opacity'' \<mapsto> Num 1]"
| "capture_final_state FadeOut init = Inr [''opacity'' \<mapsto> Num 0]"

text \<open>
  The method \<^verbatim>\<open>_interpolate(alpha)\<close> of each kind: it reads
  \<^verbatim>\<open>self._initial_state\<close> and \<^verbatim>\<open>self._final_state\<close> (second and third
  argument) and assigns one attribute of \<^verbatim>\<open>self.mobject\<close> (last argument; the
  updated object is returned). Move, Scale and Rotate assign
  \<^verbatim>\<open>start + alpha * (end - start)\<close>; the fades read neither snapshot.
\<close>

fun interpolate :: "anim_kind \<Rightarrow> snapshot \<Rightarrow> snapshot \<Rightarrow> real \<Rightarrow> mobject \<Rightarrow> error + mobject" where
  "interpolate (Move target) init fin alpha m =
     (case lookup init ''position'' of
        Inl e \<Rightarrow> Inl e
      | Inr start_pos \<Rightarrow>
          (case lookup fin ''position'' of
             Inl e \<Rightarrow> Inl e
           | Inr end_pos \<Rightarrow> Inr (m\<lparr>position := vadd start_pos (vmul (Num alpha) (vsub end_pos start_pos))\<rparr>)))"
| "interpolate (Scale target_scale) init fin alpha m =
     (case lookup init ''scale_factor'' of
        Inl e \<Rightarrow> Inl e
      | Inr start_scale \<Rightarrow>
          (case lookup fin ''scale_factor'' of
             Inl e \<Rightarrow> Inl e
           | Inr end_scale \<Rightarrow> Inr (m\<lparr>scale_factor := vadd start_scale (vmul (Num alpha) (vsub end_scale start_scale))\<rparr>)))"
| "interpolate (Rotate angle) init fin alpha m =
     (case lookup init ''rotation'' of
        Inl e \<Rightarrow> Inl e
      | Inr start_rotation \<Rightarrow>
          (case lookup fin ''rotation'' of
             Inl e \<Rightarrow> Inl e
           | Inr end_rotation \<Rightarrow> Inr (m\<lparr>rotation := vadd start_rotation (vmul (Num alpha) (vsub end_rotation start_rotation))\<rparr>)))"
| "interpolate FadeIn init fin alpha m = Inr (m\<lparr>opacity := Num alpha\<rparr>)"
| "interpolate FadeOut init fin alpha m = Inr (m\<lparr>opacity := Num (1 - alpha)\<rparr>)"

subsection \<open>The animation object\<close>

text \<open>
  Modelled from the spec: the declaration of the base class \<^verbatim>\<open>Animation\<close> is not
  among the sources. The record has the fields that the subclasses and the timeline use:
  \<^verbatim>\<open>duration\<close> (here \<open>anim_duration\<close>), \<^verbatim>\<open>easing\<close>,
  \<^verbatim>\<open>_initial_state\<close> and \<^verbatim>\<open>_final_state\<close>, and the subclass with its
  parameter. A snapshot is \<open>None\<close> until it is captured (section 3: the initial snapshot
  is captured lazily, not at construction). The target object is passed to the
  operations explicitly and returned updated.
\<close>

record animation =
  kind :: anim_kind
  anim_duration :: real
  easing :: "real \<Rightarrow> real"
  initial_state :: "snapshot option"
  final_state :: "snapshot option"

text \<open>
  Modelled from the spec: the function \<^verbatim>\<open>mini_manim.easing.linear\<close> is not among
  the sources; by section 4.1 the default easing is the identity mapping.
\<close>

definition linear :: "real \<Rightarrow> real" where
  "linear t = t"

text \<open>
  Modelled from the spec: the constructor of the base class, called by every kind as
  \<^verbatim>\<open>super().__init__(mobject, duration, easing)\<close>, is not among the sources; it
  stores duration and easing and leaves both snapshots uncaptured.
\<close>

definition Animation :: "anim_kind \<Rightarrow> real \<Rightarrow> (real \<Rightarrow> real) \<Rightarrow> animation" where
  "Animation k d e =
     \<lparr>kind = k, anim_duration = d, easing = e, initial_state = None, final_state = None\<rparr>"

text \<open>
  Modelled from the spec: the capture and evaluate control flow of the base class
  \<^verbatim>\<open>Animation\<close> of \<^verbatim>\<open>core/animation.py\<close> is not among the sources. The
  attribute that a kind governs, read from the target, is the one under whose key the
  kind stores its final snapshot and which its \<^verbatim>\<open>_interpolate\<close> assigns.
\<close>

fun governed :: "anim_kind \<Rightarrow> mobject \<Rightarrow> snapshot" where
  "governed (Move target) m = [''position'' \<mapsto> position m]"
| "governed (Scale target_scale) m = [''scale_factor'' \<mapsto> scale_factor m]"
| "governed (Rotate angle) m = [''rotation'' \<mapsto> rotation m]"
| "governed FadeIn m = [''opacity'' \<mapsto> opacity m]"
| "governed FadeOut m = [''opacity'' \<mapsto> opacity m]"

text \<open>
  Modelled from the spec: \<open>capture_initial\<close> of the absent base class. By section 4.2 it
  reads the current state of the governed attribute from the target and stores it as
  the initial snapshot, and populates it only if it is unset.
\<close>

definition capture_initial :: "animation \<Rightarrow> mobject \<Rightarrow> animation" where
  "capture_initial a m =
     (case initial_state a of
        Some s \<Rightarrow> a
      | None \<Rightarrow> a\<lparr>initial_state := Some (governed (kind a) m)\<rparr>)"

text \<open>
  Modelled from the spec: \<open>capture_final\<close> of the absent base class. By section 4.2 it
  derives the final snapshot from the initial one with the kind's
  \<^verbatim>\<open>_capture_final_state\<close> and must come after \<open>capture_initial\<close>.
\<close>

definition capture_final :: "animation \<Rightarrow> error + animation" where
  "capture_final a =
     (case initial_state a of
        None \<Rightarrow> Inl PreconditionViolation
      | Some init \<Rightarrow>
          (case capture_final_state (kind a) init of
             Inl e \<Rightarrow> Inl e
           | Inr fin \<Rightarrow> Inr (a\<lparr>final_state := Some fin\<rparr>)))"

text \<open>
  Modelled from the spec: \<open>evaluate(progress)\<close> of the absent base class. By section 4.2
  it applies the easing function to the progress, which it does not clamp, and lets the
  kind interpolate with the eased progress, writing onto the target. Evaluating without
  captured snapshots is a precondition violation (section 7).
\<close>

definition evaluate :: "animation \<Rightarrow> real \<Rightarrow> mobject \<Rightarrow> error + mobject" where
  "evaluate a progress m =
     (case initial_state a of
        None \<Rightarrow> Inl PreconditionViolation
      | Some init \<Rightarrow>
          (case final_state a of
             None \<Rightarrow> Inl PreconditionViolation
           | Some fin \<Rightarrow> interpolate (kind a) init fin (easing a progress) m))"

text \<open>Reading an attribute of the target by the key under which a snapshot holds it.\<close>

definition read_attr :: "mobject \<Rightarrow> string \<rightharpoonup> val" where
  "read_attr m k =
     (if k = ''position'' then Some (position m)
      else if k = ''rotation'' then Some (rotation m)
      else if k = ''scale_factor'' then Some (scale_factor m)
      else if k = ''opacity'' then Some (opacity m)
      else None)"

subsection \<open>The fluent builder\<close>

text \<open>
  \<^verbatim>\<open>AnimationBuilder\<close>: the target and the queue \<^verbatim>\<open>_pending_operations\<close> of
  (name, parameter) pairs; the parameter of the fades is \<^verbatim>\<open>None\<close>. Each queueing
  method appends one pair and returns the builder. The method \<^verbatim>\<open>rotate\<close> is
  \<open>rotate_by\<close> here, \<open>rotate\<close> being a list function of HOL.
\<close>

record animation_builder =
  builder_mobject :: mobject
  pending_operations :: "(string \<times> val option) list"

definition AnimationBuilder :: "mobject \<Rightarrow> animation_builder" where
  "AnimationBuilder m = \<lparr>builder_mobject = m, pending_operations = []\<rparr>"

definition move_to :: "animation_builder \<Rightarrow> val \<Rightarrow> animation_builder" where
  "move_to b target = b\<lparr>pending_operations := pending_operations b @ [(''move_to'', Some target)]\<rparr>"

definition scale :: "animation_builder \<Rightarrow> real \<Rightarrow> animation_builder" where
  "scale b factor = b\<lparr>pending_operations := pending_operations b @ [(''scale'', Some (Num factor))]\<rparr>"

definition fade_in :: "animation_builder \<Rightarrow> animation_builder" where
  "fade_in b = b\<lparr>pending_operations := pending_operations b @ [(''fade_in'', None)]\<rparr>"

definition fade_out :: "animation_builder \<Rightarrow> animation_builder" where
  "fade_out b = b\<lparr>pending_operations := pending_operations b @ [(''fade_out'', None)]\<rparr>"

definition rotate_by :: "animation_builder \<Rightarrow> real \<Rightarrow> animation_builder" where
  "rotate_by b angle = b\<lparr>pending_operations := pending_operations b @ [(''rotate'', Some (Num angle))]\<rparr>"

text \<open>\<^verbatim>\<open>build(duration, easing)\<close>: the body is \<^verbatim>\<open>return []\<close>.\<close>

definition build :: "animation_builder \<Rightarrow> real \<Rightarrow> (real \<Rightarrow> real) \<Rightarrow> animation list" where
  "build b d e = []"

subsection \<open>Animation blocks\<close>

text \<open>
  \<^verbatim>\<open>AnimationBlock\<close>: the fields set by \<^verbatim>\<open>__init__\<close>. The division is by
  \<^verbatim>\<open>len(animations)\<close>, which is positive where it is evaluated.
\<close>

record animation_block =
  animations :: "animation list"
  duration :: real
  sequential :: bool
  per_animation_duration :: real

definition AnimationBlock :: "animation list \<Rightarrow> real \<Rightarrow> bool \<Rightarrow> animation_block" where
  "AnimationBlock anims d s =
     \<lparr>animations = anims, duration = d, sequential = s,
      per_animation_duration =
        (if s \<and> length anims > 0 then d / real (length anims) else d)\<rparr>"

type_synonym active = "(animation \<times> real) list"

text \<open>
  The loop of the sequential branch of \<^verbatim>\<open>get_active_animations\<close>:
  \<^verbatim>\<open>for i, anim in enumerate(self.animations)\<close>, with the list \<^verbatim>\<open>active\<close> as
  accumulator. The arguments are \<^verbatim>\<open>self.per_animation_duration\<close>, \<^verbatim>\<open>time\<close>, the
  index of the next animation, the animations left and \<^verbatim>\<open>active\<close>. The end of a
  slice is \<^verbatim>\<open>anim_start + self.per_animation_duration\<close>, computed apart from the
  start \<^verbatim>\<open>(i + 1) * self.per_animation_duration\<close> of the next slice.
\<close>

fun sequential_loop :: "real \<Rightarrow> real \<Rightarrow> nat \<Rightarrow> animation list \<Rightarrow> active \<Rightarrow> error + active" where
  "sequential_loop per time i [] active = Inr active"
| "sequential_loop per time i (anim # rest) active =
     (let anim_start = real i * per;
          anim_end = anim_start + per
      in if anim_start \<le> time \<and> time < anim_end then
           (let local_time = time - anim_start
            in case truediv local_time per of
                 Inl e \<Rightarrow> Inl e
               | Inr alpha \<Rightarrow> sequential_loop per time (Suc i) rest (active @ [(anim, alpha)]))
         else if time \<ge> anim_end then
           sequential_loop per time (Suc i) rest (active @ [(anim, 1)])
         else sequential_loop per time (Suc i) rest active)"

text \<open>The loop of the parallel branch: \<^verbatim>\<open>for anim in self.animations\<close>.\<close>

fun parallel_loop :: "real \<Rightarrow> animation list \<Rightarrow> active \<Rightarrow> error + active" where
  "parallel_loop time [] active = Inr active"
| "parallel_loop time (anim # rest) active =
     (if time < anim_duration anim then
        (case truediv time (anim_duration anim) of
           Inl e \<Rightarrow> Inl e
         | Inr alpha \<Rightarrow> parallel_loop time rest (active @ [(anim, alpha)]))
      else parallel_loop time rest (active @ [(anim, 1)]))"

text \<open>\<^verbatim>\<open>AnimationBlock.get_active_animations(time)\<close>.\<close>

definition AnimationBlock_get_active_animations :: "animation_block \<Rightarrow> real \<Rightarrow> error + active" where
  "AnimationBlock_get_active_animations b time =
     (if sequential b then sequential_loop (per_animation_duration b) time 0 (animations b) []
      else parallel_loop time (animations b) [])"

subsection \<open>The timeline\<close>

text \<open>
  \<^verbatim>\<open>Timeline\<close>: \<^verbatim>\<open>fps\<close>, the list \<^verbatim>\<open>blocks\<close> of (block, start time) pairs and
  \<^verbatim>\<open>total_duration\<close>. The default of \<^verbatim>\<open>fps\<close>, the constant \<^verbatim>\<open>DEFAULT_FPS\<close>, is
  not among the sources: the constructor takes \<^verbatim>\<open>fps\<close> as its argument.
\<close>

record timeline =
  fps :: int
  blocks :: "(animation_block \<times> real) list"
  total_duration :: real

definition Timeline :: "int \<Rightarrow> timeline" where
  "Timeline f = \<lparr>fps = f, blocks = [], total_duration = 0\<rparr>"

definition add_block :: "timeline \<Rightarrow> animation list \<Rightarrow> real \<Rightarrow> bool \<Rightarrow> timeline" where
  "add_block tln anims d s =
     (let block = AnimationBlock anims d s;
          start_time = total_duration tln
      in tln\<lparr>blocks := blocks tln @ [(block, start_time)],
            total_duration := total_duration tln + d\<rparr>)"

definition add_sequential :: "timeline \<Rightarrow> animation list \<Rightarrow> real \<Rightarrow> timeline" where
  "add_sequential tln anims d = add_block tln anims d True"

definition add_parallel :: "timeline \<Rightarrow> animation list \<Rightarrow> real \<Rightarrow> timeline" where
  "add_parallel tln anims d = add_block tln anims d False"

definition reset :: "timeline \<Rightarrow> timeline" where
  "reset tln = tln\<lparr>blocks := [], total_duration := 0\<rparr>"

text \<open>
  The loop of \<^verbatim>\<open>Timeline.get_active_animations\<close>:
  \<^verbatim>\<open>for block, start_time in self.blocks\<close>, with \<^verbatim>\<open>active\<close> as accumulator.
\<close>

fun timeline_loop :: "real \<Rightarrow> (animation_block \<times> real) list \<Rightarrow> active \<Rightarrow> error + active" where
  "timeline_loop time [] active = Inr active"
| "timeline_loop time ((block, start_time) # rest) active =
     (let block_time = time - start_time
      in if block_time < 0 then timeline_loop time rest active
         else if block_time \<ge> duration block then
           timeline_loop time rest (active @ map (\<lambda>anim. (anim, 1)) (animations block))
         else
           (case AnimationBlock_get_active_animations block block_time of
              Inl e \<Rightarrow> Inl e
            | Inr block_active \<Rightarrow> timeline_loop time rest (active @ block_active)))"

text \<open>
  \<^verbatim>\<open>Timeline.get_active_animations(frame)\<close>: \<^verbatim>\<open>frame / self.fps\<close> is the true
  division of two integers, which raises when \<^verbatim>\<open>fps\<close> is zero.
\<close>

definition Timeline_get_active_animations :: "timeline \<Rightarrow> int \<Rightarrow> error + active" where
  "Timeline_get_active_animations tln frame =
     (case truediv (real_of_int frame) (real_of_int (fps tln)) of
        Inl e \<Rightarrow> Inl e
      | Inr time \<Rightarrow> timeline_loop time (blocks tln) [])"

text \<open>\<^verbatim>\<open>total_frames()\<close>: \<^verbatim>\<open>int(self.total_duration * self.fps) + 1\<close>.\<close>

definition total_frames :: "timeline \<Rightarrow> int" where
  "total_frames tln = py_int (total_duration tln * real_of_int (fps tln)) + 1"

text \<open>
  The mutating operations of a timeline as data, and a run of a sequence of them from a
  given timeline.
\<close>

datatype timeline_op =
    AddBlock "animation list" real bool
  | AddSequential "animation list" real
  | AddParallel "animation list" real
  | Reset

fun apply_op :: "timeline \<Rightarrow> timeline_op \<Rightarrow> timeline" where
  "apply_op tln (AddBlock anims d s) = add_block tln anims d s"
| "apply_op tln (AddSequential anims d) = add_sequential tln anims d"
| "apply_op tln (AddParallel anims d) = add_parallel tln anims d"
| "apply_op tln Reset = reset tln"

definition run_ops :: "timeline \<Rightarrow> timeline_op list \<Rightarrow> timeline" where
  "run_ops tln ops = foldl apply_op tln ops"

subsection \<open>Arming an animation\<close>

text \<open>
  Capturing the initial snapshot from a target and deriving the final one, on a freshly
  constructed animation, with the operations modelled from section 4.2 of the spec: the
  state in which an animation is evaluated.
\<close>

definition armed :: "anim_kind \<Rightarrow> real \<Rightarrow> (real \<Rightarrow> real) \<Rightarrow> mobject \<Rightarrow> error + animation" where
  "armed k d e m = capture_final (capture_initial (Animation k d e) m)"

text \<open>
  The result of an evaluation writes a snapshot when it is a target object on which
  every attribute of the snapshot has the snapshot's value.
\<close>

definition writes_snapshot :: "error + mobject \<Rightarrow> snapshot \<Rightarrow> bool" where
  "writes_snapshot r s =
     (case r of Inl e \<Rightarrow> False | Inr m \<Rightarrow> (\<forall>k\<in>dom s. read_attr m k = s k))"

subsection \<open>Properties of blocks and timelines\<close>

text \<open>
  What a sequential block with slice duration \<open>d\<close> reports of the animation at index
  \<open>i\<close> at local time \<open>t\<close>. The slice starts at \<open>i * d\<close> and ends at \<open>i * d + d\<close>, as the
  code computes them: inside the slice the progress is \<open>(t - i * d) / d\<close>, at or after its
  end it is 1, before its start nothing is reported.
\<close>

definition slice_report :: "real \<Rightarrow> real \<Rightarrow> nat \<Rightarrow> animation \<Rightarrow> active" where
  "slice_report d t i a =
     (if real i * d \<le> t \<and> t < real i * d + d then [(a, (t - real i * d) / d)]
      else if real i * d + d \<le> t then [(a, 1)]
      else [])"

definition progress_in_slice :: "real \<Rightarrow> real \<Rightarrow> nat \<Rightarrow> real" where
  "progress_in_slice d t i = (if t < real i * d + d then (t - real i * d) / d else 1)"

text \<open>
  What one (block, start time) pair of a timeline contributes at an absolute time: nothing
  when it has not started, every animation at progress 1 when it has elapsed, and the
  pairs of the block itself otherwise.
\<close>

definition contributes :: "real \<Rightarrow> animation_block \<times> real \<Rightarrow> active \<Rightarrow> bool" where
  "contributes time bs c =
     ((snd bs > time \<longrightarrow> c = [])
      \<and> (snd bs \<le> time \<and> time - snd bs \<ge> duration (fst bs) \<longrightarrow>
           c = map (\<lambda>a. (a, 1)) (animations (fst bs)))
      \<and> (snd bs \<le> time \<and> time - snd bs < duration (fst bs) \<longrightarrow>
           AnimationBlock_get_active_animations (fst bs) (time - snd bs) = Inr c))"

text \<open>
  The total that the timeline accumulates: from zero, one duration after the other, in
  block order. Blocks are contiguous in absolute time when each block starts at the
  total of the durations of the blocks before it and the total duration is the total
  of all of them.
\<close>

definition running_total :: "real list \<Rightarrow> real" where
  "running_total ds = foldl (+) 0 ds"

definition starts_contiguous :: "timeline \<Rightarrow> bool" where
  "starts_contiguous tln =
     ((\<forall>i<length (blocks tln).
         snd (blocks tln ! i) = running_total (map (\<lambda>p. duration (fst p)) (take i (blocks tln))))
      \<and> total_duration tln = running_total (map (\<lambda>p. duration (fst p)) (blocks tln)))"

subsection \<open>Concrete inputs\<close>

definition unit_object :: mobject where
  "unit_object = \<lparr>position = Vec 0 0, rotation = Num 0, scale_factor = Num 1, opacity = Num 1\<rparr>"

definition spin :: animation where
  "spin = Animation (Rotate pi) 1 linear"

definition grow :: animation where
  "grow = Animation (Scale 2) 1 linear"

definition slow_fade :: animation where
  "slow_fade = Animation FadeIn 2 linear"

definition negative_fade :: animation where
  "negative_fade = Animation FadeOut (- 1) linear"

definition halfway :: "real \<Rightarrow> real" where
  "halfway t = 1 / 2"

definition armed_spin :: animation where
  "armed_spin = \<lparr>kind = Rotate pi, anim_duration = 1, easing = linear,
     initial_state = Some [''rotation'' \<mapsto> Num 0], final_state = Some [''rotation'' \<mapsto> Num pi]\<rparr>"

definition armed_move :: animation where
  "armed_move = \<lparr>kind = Move (Vec 10 0), anim_duration = 1, easing = linear,
     initial_state = Some [''position'' \<mapsto> Vec 0 0],
     final_state = Some [''position'' \<mapsto> Vec 10 0]\<rparr>"

definition armed_fade_in :: animation where
  "armed_fade_in = \<lparr>kind = FadeIn, anim_duration = 1, easing = linear,
     initial_state = Some [''opacity'' \<mapsto> Num 1], final_state = Some [''opacity'' \<mapsto> Num 1]\<rparr>"

definition armed_halfway_spin :: animation where
  "armed_halfway_spin = \<lparr>kind = Rotate pi, anim_duration = 1, easing = halfway,
     initial_state = Some [''rotation'' \<mapsto> Num 0], final_state = Some [''rotation'' \<mapsto> Num pi]\<rparr>"

definition armed_halfway_fade_in :: animation where
  "armed_halfway_fade_in = \<lparr>kind = FadeIn, anim_duration = 1, easing = halfway,
     initial_state = Some [''opacity'' \<mapsto> Num 1], final_state = Some [''opacity'' \<mapsto> Num 1]\<rparr>"

definition three_blocks :: timeline where
  "three_blocks =
     add_parallel (add_parallel (add_sequential (Timeline 2) [spin, grow] 2) [slow_fade] 2)
       [negative_fade] 1"

section \<open>Lemmas\<close>

subsection \<open>Values and the animation protocol\<close>

lemma interpolate_at_zero: "same_shape s e \<Longrightarrow> vadd s (vmul (Num 0) (vsub e s)) = s"
  by (cases s; cases e) (simp_all add: vadd_def vmul_def vsub_def)

lemma same_shape_vadd_Num: "same_shape r (vadd r (Num x))"
  by (cases r) (simp_all add: vadd_def)

lemma same_shape_vmul_Num: "same_shape r (vmul r (Num x))"
  by (cases r) (simp_all add: vmul_def)

lemma anim_duration_Animation: "anim_duration (Animation k d e) = d"
  by (simp add: Animation_def)

lemma armed_Inr:
  assumes "armed k d e m0 = Inr a"
  shows "kind a = k \<and> easing a = e \<and> anim_duration a = d
       \<and> initial_state a = Some (governed k m0)
       \<and> (\<exists>fin. capture_final_state k (governed k m0) = Inr fin \<and> final_state a = Some fin)"
  using assms
  by (auto simp: armed_def capture_final_def capture_initial_def Animation_def
      split: sum.splits)

lemma evaluate_captured:
  "initial_state a = Some init \<Longrightarrow> final_state a = Some fin \<Longrightarrow>
     evaluate a p m = interpolate (kind a) init fin (easing a p) m"
  by (simp add: evaluate_def)

lemma writes_position: "writes_snapshot (Inr (m\<lparr>position := v\<rparr>)) [''position'' \<mapsto> v]"
  by (simp add: writes_snapshot_def read_attr_def)

lemma writes_scale_factor:
  "writes_snapshot (Inr (m\<lparr>scale_factor := v\<rparr>)) [''scale_factor'' \<mapsto> v]"
  by (simp add: writes_snapshot_def read_attr_def)

lemma writes_rotation: "writes_snapshot (Inr (m\<lparr>rotation := v\<rparr>)) [''rotation'' \<mapsto> v]"
  by (simp add: writes_snapshot_def read_attr_def)

lemma writes_opacity: "writes_snapshot (Inr (m\<lparr>opacity := v\<rparr>)) [''opacity'' \<mapsto> v]"
  by (simp add: writes_snapshot_def read_attr_def)

lemma armed_spin_eq: "armed (Rotate pi) 1 linear unit_object = Inr armed_spin"
  by (simp add: armed_def capture_final_def capture_initial_def Animation_def unit_object_def
      lookup_def vadd_def armed_spin_def)

lemma armed_move_eq: "armed (Move (Vec 10 0)) 1 linear unit_object = Inr armed_move"
  by (simp add: armed_def capture_final_def capture_initial_def Animation_def unit_object_def
      armed_move_def)

lemma armed_fade_in_eq: "armed FadeIn 1 linear unit_object = Inr armed_fade_in"
  by (simp add: armed_def capture_final_def capture_initial_def Animation_def unit_object_def
      armed_fade_in_def)

lemma armed_halfway_spin_eq: "armed (Rotate pi) 1 halfway unit_object = Inr armed_halfway_spin"
  by (simp add: armed_def capture_final_def capture_initial_def Animation_def unit_object_def
      lookup_def vadd_def armed_halfway_spin_def)

lemma armed_halfway_fade_in_eq: "armed FadeIn 1 halfway unit_object = Inr armed_halfway_fade_in"
  by (simp add: armed_def capture_final_def capture_initial_def Animation_def unit_object_def
      armed_halfway_fade_in_def)

subsection \<open>The loops of a block\<close>

lemma sequential_loop_eq:
  "sequential_loop per time i anims active =
     Inr (active @ concat (map (\<lambda>j. slice_report per time (i + j) (anims ! j)) [0..<length anims]))"
proof (induction anims arbitrary: i active)
  case Nil
  then show ?case by simp
next
  case (Cons a rest)
  have nz: "per \<noteq> 0" if "real i * per \<le> time" "time < real i * per + per"
    using that by auto
  show ?case
    unfolding length_Cons map_upt_Suc
    by (auto simp: Let_def Cons.IH slice_report_def truediv_def dest: nz)
qed

lemma parallel_loop_eq:
  assumes "0 \<le> time"
  shows "parallel_loop time anims active =
     Inr (active @ map (\<lambda>a. (a, if time < anim_duration a then time / anim_duration a else 1)) anims)"
  using assms
proof (induction anims arbitrary: active)
  case Nil
  then show ?case by simp
next
  case (Cons a rest)
  then show ?case by (auto simp: truediv_def)
qed

lemma filter_downward_closed:
  assumes "\<And>i j. j \<le> i \<Longrightarrow> P i \<Longrightarrow> P j"
  shows "\<exists>k\<le>n. filter P [0..<n] = [0..<k] \<and> (\<forall>j<n. P j \<longleftrightarrow> j < k)"
proof (induction n)
  case 0
  then show ?case by simp
next
  case (Suc n)
  then obtain k where k: "k \<le> n" "filter P [0..<n] = [0..<k]" "\<forall>j<n. P j \<longleftrightarrow> j < k"
    by blast
  show ?case
  proof (cases "P n")
    case True
    then have "\<forall>j<n. P j" using assms by (meson less_imp_le)
    with k have "k = n" by (metis le_neq_implies_less less_irrefl)
    with True k show ?thesis
      by (intro exI [of _ "Suc n"]) (auto simp: less_Suc_eq)
  next
    case False
    with k show ?thesis
      by (intro exI [of _ k]) (auto simp: less_Suc_eq)
  qed
qed

lemma concat_map_if_singleton:
  "concat (map (\<lambda>x. if P x then [f x] else []) xs) = map f (filter P xs)"
  by (induction xs) simp_all

lemma map_nth_upt_take: "k \<le> length xs \<Longrightarrow> map (\<lambda>j. xs ! j) [0..<k] = take k xs"
  by (simp add: list_eq_iff_nth_eq)

lemma slice_report_positive:
  assumes "0 < d"
  shows "slice_report d t j a = (if real j * d \<le> t then [(a, progress_in_slice d t j)] else [])"
  using assms by (auto simp: slice_report_def progress_in_slice_def)

lemma slice_report_started:
  assumes "real j * d \<le> t"
  shows "\<exists>p. slice_report d t j a = [(a, p)]"
  using assms by (auto simp: slice_report_def)

lemma map_fst_concat_reports:
  assumes "\<And>j. j < n \<Longrightarrow> \<exists>p. f j = [(xs ! j, p)]" and "n \<le> length xs"
  shows "map fst (concat (map f [0..<n])) = take n xs"
  using assms
proof (induction n)
  case 0
  then show ?case by simp
next
  case (Suc n)
  obtain p where p: "f n = [(xs ! n, p)]" using Suc.prems(1) [of n] by auto
  have "map fst (concat (map f [0..<n])) = take n xs"
    using Suc by simp
  then show ?case using p Suc.prems(2) by (simp add: take_Suc_conv_app_nth)
qed

lemma sequential_started_prefix:
  assumes "0 < d"
  shows "\<exists>k\<le>length anims.
           concat (map (\<lambda>j. slice_report d t j (anims ! j)) [0..<length anims])
             = map (\<lambda>j. (anims ! j, progress_in_slice d t j)) [0..<k]
           \<and> (\<forall>j<length anims. real j * d \<le> t \<longleftrightarrow> j < k)"
proof -
  let ?P = "\<lambda>j. real j * d \<le> t"
  have dc: "?P j" if "j \<le> i" "?P i" for i j
  proof -
    have "real j * d \<le> real i * d" using that(1) assms by simp
    with that(2) show ?thesis by linarith
  qed
  obtain k where k: "k \<le> length anims" "filter ?P [0..<length anims] = [0..<k]"
      "\<forall>j<length anims. ?P j \<longleftrightarrow> j < k"
    using filter_downward_closed [of ?P "length anims"] dc by blast
  have "concat (map (\<lambda>j. slice_report d t j (anims ! j)) [0..<length anims])
      = map (\<lambda>j. (anims ! j, progress_in_slice d t j)) (filter ?P [0..<length anims])"
    by (simp add: slice_report_positive [OF assms] concat_map_if_singleton)
  with k show ?thesis by auto
qed

lemma per_animation_duration_sequential:
  "anims \<noteq> [] \<Longrightarrow>
     per_animation_duration (AnimationBlock anims D True) = D / real (length anims)"
  by (simp add: AnimationBlock_def)

lemma sequential_block_eq:
  "AnimationBlock_get_active_animations (AnimationBlock anims D True) t =
     Inr (concat (map (\<lambda>j. slice_report (per_animation_duration (AnimationBlock anims D True)) t j
                          (anims ! j)) [0..<length anims]))"
  by (simp add: AnimationBlock_get_active_animations_def sequential_loop_eq)
     (simp add: AnimationBlock_def)

lemma sequential_block_prefix:
  assumes "anims \<noteq> []" "0 < D" "d = D / real (length anims)"
  shows "\<exists>k\<le>length anims.
           AnimationBlock_get_active_animations (AnimationBlock anims D True) t
             = Inr (map (\<lambda>j. (anims ! j, progress_in_slice d t j)) [0..<k])
           \<and> (\<forall>j<length anims. real j * d \<le> t \<longleftrightarrow> j < k)"
proof -
  have d: "0 < d" using assms by simp
  show ?thesis
    using sequential_started_prefix [OF d, of anims t]
    by (simp add: sequential_block_eq per_animation_duration_sequential assms)
qed

lemma parallel_block_eq:
  assumes "0 \<le> t"
  shows "AnimationBlock_get_active_animations (AnimationBlock anims D False) t =
     Inr (map (\<lambda>a. (a, if t < anim_duration a then t / anim_duration a else 1)) anims)"
  using parallel_loop_eq [OF assms, of anims "[]"]
  by (simp add: AnimationBlock_get_active_animations_def AnimationBlock_def)

lemma block_total:
  assumes "0 \<le> t"
  shows "\<exists>c. AnimationBlock_get_active_animations b t = Inr c"
  using parallel_loop_eq [OF assms, of "animations b" "[]"]
  by (simp add: AnimationBlock_get_active_animations_def sequential_loop_eq)

lemma sequential_block_all_reported:
  assumes "0 \<le> t" "D \<le> t"
  shows "\<exists>res. AnimationBlock_get_active_animations (AnimationBlock anims D True) t = Inr res
           \<and> map fst res = anims"
proof -
  let ?n = "length anims"
  let ?per = "per_animation_duration (AnimationBlock anims D True)"
  have started: "real j * ?per \<le> t" if "j < ?n" for j
  proof (cases "0 \<le> ?per")
    case True
    have ne: "anims \<noteq> []" using that by auto
    have per: "?per = D / real ?n" using ne by (rule per_animation_duration_sequential)
    have "real j \<le> real ?n" using that by simp
    then have "real j * ?per \<le> real ?n * ?per"
      using True by (intro mult_right_mono)
    also have "real ?n * ?per = D" using ne per by simp
    finally show ?thesis using assms(2) by linarith
  next
    case False
    then have "?per \<le> 0" by simp
    then have "real j * ?per \<le> 0" by (intro mult_nonneg_nonpos) simp_all
    then show ?thesis using assms(1) by linarith
  qed
  have "map fst (concat (map (\<lambda>j. slice_report ?per t j (anims ! j)) [0..<?n])) = take ?n anims"
    using started by (intro map_fst_concat_reports slice_report_started) simp_all
  then show ?thesis by (simp add: sequential_block_eq)
qed

subsection \<open>The loop of a timeline\<close>

lemma timeline_loop_concat:
  "\<exists>contribs. timeline_loop time blks active = Inr (active @ concat contribs)
       \<and> list_all2 (contributes time) blks contribs"
proof (induction blks arbitrary: active)
  case Nil
  then show ?case by simp
next
  case (Cons bs rest)
  obtain b s where bs: "bs = (b, s)" by (cases bs)
  consider (early) "time - s < 0"
    | (elapsed) "0 \<le> time - s" "duration b \<le> time - s"
    | (running) "0 \<le> time - s" "time - s < duration b"
    by linarith
  then show ?case
  proof cases
    case early
    obtain cs where cs: "timeline_loop time rest active = Inr (active @ concat cs)"
        "list_all2 (contributes time) rest cs"
      using Cons.IH by blast
    have "contributes time bs []" using early bs by (simp add: contributes_def)
    with cs early bs show ?thesis
      by (intro exI [of _ "[] # cs"]) simp
  next
    case elapsed
    let ?c = "map (\<lambda>anim. (anim, 1)) (animations b)"
    obtain cs where cs: "timeline_loop time rest (active @ ?c) = Inr ((active @ ?c) @ concat cs)"
        "list_all2 (contributes time) rest cs"
      using Cons.IH by blast
    have "contributes time bs ?c" using elapsed bs by (simp add: contributes_def)
    with cs elapsed bs show ?thesis
      by (intro exI [of _ "?c # cs"]) simp
  next
    case running
    obtain c where c: "AnimationBlock_get_active_animations b (time - s) = Inr c"
      using block_total [OF running(1)] by blast
    obtain cs where cs: "timeline_loop time rest (active @ c) = Inr ((active @ c) @ concat cs)"
        "list_all2 (contributes time) rest cs"
      using Cons.IH by blast
    have "contributes time bs c" using running bs c by (simp add: contributes_def)
    with cs running bs c show ?thesis
      by (intro exI [of _ "c # cs"]) simp
  qed
qed

lemma blocks_three_blocks:
  "blocks three_blocks =
     [(AnimationBlock [spin, grow] 2 True, 0), (AnimationBlock [slow_fade] 2 False, 2),
      (AnimationBlock [negative_fade] 1 False, 4)]"
  by (simp add: three_blocks_def add_parallel_def add_sequential_def add_block_def Timeline_def)

lemma fps_three_blocks: "fps three_blocks = 2"
  by (simp add: three_blocks_def add_parallel_def add_sequential_def add_block_def Timeline_def)

subsection \<open>The contiguity invariant\<close>

lemma duration_AnimationBlock: "duration (AnimationBlock anims d s) = d"
  by (simp add: AnimationBlock_def)

lemma running_total_snoc: "running_total (ds @ [d]) = running_total ds + d"
  by (simp add: running_total_def)

lemma starts_contiguous_Timeline: "starts_contiguous (Timeline f)"
  by (simp add: starts_contiguous_def Timeline_def running_total_def)

lemma starts_contiguous_reset: "starts_contiguous (reset tln)"
  by (simp add: starts_contiguous_def reset_def running_total_def)

lemma starts_contiguous_add_block:
  assumes "starts_contiguous tln"
  shows "starts_contiguous (add_block tln anims d s)"
proof -
  let ?xs = "blocks tln"
  let ?x = "(AnimationBlock anims d s, total_duration tln)"
  have tot: "total_duration tln = running_total (map (\<lambda>p. duration (fst p)) ?xs)"
    using assms by (simp add: starts_contiguous_def)
  have old: "\<And>i. i < length ?xs \<Longrightarrow>
      snd (?xs ! i) = running_total (map (\<lambda>p. duration (fst p)) (take i ?xs))"
    using assms by (simp add: starts_contiguous_def)
  have "snd ((?xs @ [?x]) ! i) = running_total (map (\<lambda>p. duration (fst p)) (take i (?xs @ [?x])))"
    if "i < Suc (length ?xs)" for i
  proof (cases "i < length ?xs")
    case True
    then show ?thesis using old [OF True] by (simp add: nth_append)
  next
    case False
    with that have "i = length ?xs" by simp
    then show ?thesis using tot by (simp add: nth_append)
  qed
  then show ?thesis
    using tot
    by (simp add: starts_contiguous_def add_block_def Let_def duration_AnimationBlock
        running_total_snoc)
qed

lemma starts_contiguous_apply_op:
  "starts_contiguous tln \<Longrightarrow> starts_contiguous (apply_op tln op)"
  by (cases op)
     (simp_all add: add_sequential_def add_parallel_def starts_contiguous_add_block
        starts_contiguous_reset)

lemma starts_contiguous_run_ops:
  "starts_contiguous tln \<Longrightarrow> starts_contiguous (run_ops tln ops)"
proof (induction ops rule: rev_induct)
  case Nil
  then show ?case by (simp add: run_ops_def)
next
  case (snoc op ops)
  then show ?case using starts_contiguous_apply_op by (simp add: run_ops_def)
qed

section \<open>The claims\<close>

subsection \<open>C1: evaluation at progress 0 and 1\<close>

text \<open>
  Claim C1 says that every kind, under every easing function, writes the initial snapshot
  at progress 0 and the final snapshot at progress 1. Of this the code does the
  following, by design. An armed animation of kind Move, Scale or Rotate writes
  \<open>start + easing(p) * (end - start)\<close>, with the initial snapshot as start and the final
  snapshot as end; at progress 0 this is the initial snapshot when \<open>easing 0 = 0\<close> (for
  Move, when the target has the shape of the position). The fades do not read the
  initial snapshot: FadeIn writes opacity \<open>easing(p)\<close> and FadeOut \<open>1 - easing(p)\<close>, which
  is the final snapshot at progress 1 when \<open>easing 1 = 1\<close>.
\<close>

theorem evaluate_endpoints:
  assumes "armed k d e m0 = Inr a"
  shows "((\<forall>target. k = Move target \<longrightarrow> same_shape (position m0) target)
            \<and> k \<noteq> FadeIn \<and> k \<noteq> FadeOut \<and> e 0 = 0
          \<longrightarrow> writes_snapshot (evaluate a 0 m) (the (initial_state a)))
       \<and> ((k = FadeIn \<or> k = FadeOut) \<and> e 1 = 1
          \<longrightarrow> writes_snapshot (evaluate a 1 m) (the (final_state a)))
       \<and> (k = FadeIn \<longrightarrow> evaluate a p m = Inr (m\<lparr>opacity := Num (e p)\<rparr>))
       \<and> (k = FadeOut \<longrightarrow> evaluate a p m = Inr (m\<lparr>opacity := Num (1 - e p)\<rparr>))
       \<and> (\<forall>target. k = Move target \<longrightarrow>
             evaluate a p m = Inr (m\<lparr>position :=
               vadd (position m0) (vmul (Num (e p)) (vsub target (position m0)))\<rparr>))
       \<and> (\<forall>target_scale. k = Scale target_scale \<longrightarrow>
             evaluate a p m = Inr (m\<lparr>scale_factor :=
               vadd (scale_factor m0)
                 (vmul (Num (e p))
                   (vsub (vmul (scale_factor m0) (Num target_scale)) (scale_factor m0)))\<rparr>))
       \<and> (\<forall>angle. k = Rotate angle \<longrightarrow>
             evaluate a p m = Inr (m\<lparr>rotation :=
               vadd (rotation m0)
                 (vmul (Num (e p)) (vsub (vadd (rotation m0) (Num angle)) (rotation m0)))\<rparr>))"
proof -
  from armed_Inr [OF assms] obtain fin where a:
    "kind a = k" "easing a = e" "initial_state a = Some (governed k m0)"
    "capture_final_state k (governed k m0) = Inr fin" "final_state a = Some fin"
    by blast
  have ev: "evaluate a q m = interpolate k (governed k m0) fin (e q) m" for q
    using evaluate_captured [OF a(3) a(5)] a(1,2) by simp
  show ?thesis
  proof (cases k)
    case (Move target)
    have fin: "fin = [''position'' \<mapsto> target]" using a(4) Move by simp
    have p: "evaluate a q m = Inr (m\<lparr>position :=
        vadd (position m0) (vmul (Num (e q)) (vsub target (position m0)))\<rparr>)" for q
      by (simp add: ev Move fin lookup_def)
    have 0: "writes_snapshot (evaluate a 0 m) (the (initial_state a))"
      if "same_shape (position m0) target" "e 0 = 0"
      using that by (simp add: p a(3) Move interpolate_at_zero writes_position)
    from 0 p Move show ?thesis by simp
  next
    case (Scale target_scale)
    let ?f = "vmul (scale_factor m0) (Num target_scale)"
    have fin: "fin = [''scale_factor'' \<mapsto> ?f]"
      using a(4) Scale by (simp add: lookup_def)
    have sh: "same_shape (scale_factor m0) ?f" by (rule same_shape_vmul_Num)
    have p: "evaluate a q m = Inr (m\<lparr>scale_factor :=
        vadd (scale_factor m0) (vmul (Num (e q)) (vsub ?f (scale_factor m0)))\<rparr>)" for q
      by (simp add: ev Scale fin lookup_def)
    have 0: "writes_snapshot (evaluate a 0 m) (the (initial_state a))" if "e 0 = 0"
      using that by (simp add: p a(3) Scale interpolate_at_zero [OF sh] writes_scale_factor)
    from 0 p Scale show ?thesis by simp
  next
    case (Rotate angle)
    let ?f = "vadd (rotation m0) (Num angle)"
    have fin: "fin = [''rotation'' \<mapsto> ?f]"
      using a(4) Rotate by (simp add: lookup_def)
    have sh: "same_shape (rotation m0) ?f" by (rule same_shape_vadd_Num)
    have p: "evaluate a q m = Inr (m\<lparr>rotation :=
        vadd (rotation m0) (vmul (Num (e q)) (vsub ?f (rotation m0)))\<rparr>)" for q
      by (simp add: ev Rotate fin lookup_def)
    have 0: "writes_snapshot (evaluate a 0 m) (the (initial_state a))" if "e 0 = 0"
      using that by (simp add: p a(3) Rotate interpolate_at_zero [OF sh] writes_rotation)
    from 0 p Rotate show ?thesis by simp
  next
    case FadeIn
    have fin: "fin = [''opacity'' \<mapsto> Num 1]" using a(4) FadeIn by simp
    have 1: "writes_snapshot (evaluate a 1 m) (the (final_state a))" if "e 1 = 1"
      using that by (simp add: ev a(5) FadeIn fin writes_opacity)
    have p: "evaluate a p m = Inr (m\<lparr>opacity := Num (e p)\<rparr>)"
      by (simp add: ev FadeIn)
    from 1 p FadeIn show ?thesis by simp
  next
    case FadeOut
    have fin: "fin = [''opacity'' \<mapsto> Num 0]" using a(4) FadeOut by simp
    have 1: "writes_snapshot (evaluate a 1 m) (the (final_state a))" if "e 1 = 1"
      using that by (simp add: ev a(5) FadeOut fin writes_opacity)
    have p: "evaluate a p m = Inr (m\<lparr>opacity := Num (1 - e p)\<rparr>)"
      by (simp add: ev FadeOut)
    from 1 p FadeOut show ?thesis by simp
  qed
qed

text \<open>
  C1 at a rotation by \<open>\<pi>\<close> and a move to \<open>(10, 0)\<close> at progress 0, and at a fade-in at
  progress 1/4 and 1, all with linear easing and armed on an object of position
  \<open>(0, 0)\<close>, rotation 0 and opacity 1.
\<close>

theorem evaluate_endpoints_witness:
  "armed (Rotate pi) 1 linear unit_object = Inr armed_spin
   \<and> linear 0 = 0 \<and> linear 1 = 1
   \<and> writes_snapshot (evaluate armed_spin 0 unit_object) [''rotation'' \<mapsto> Num 0]
   \<and> armed (Move (Vec 10 0)) 1 linear unit_object = Inr armed_move
   \<and> same_shape (position unit_object) (Vec 10 0)
   \<and> writes_snapshot (evaluate armed_move 0 unit_object) [''position'' \<mapsto> Vec 0 0]
   \<and> armed FadeIn 1 linear unit_object = Inr armed_fade_in
   \<and> evaluate armed_fade_in (1 / 4) unit_object = Inr (unit_object\<lparr>opacity := Num (1 / 4)\<rparr>)
   \<and> writes_snapshot (evaluate armed_fade_in 1 unit_object) [''opacity'' \<mapsto> Num 1]"
proof -
  have s: "same_shape (position unit_object) (Vec 10 0)"
    by (simp add: unit_object_def)
  have i: "initial_state armed_spin = Some [''rotation'' \<mapsto> Num 0]"
      "initial_state armed_move = Some [''position'' \<mapsto> Vec 0 0]"
      "final_state armed_fade_in = Some [''opacity'' \<mapsto> Num 1]"
    by (simp_all add: armed_spin_def armed_move_def armed_fade_in_def)
  show ?thesis
    using evaluate_endpoints [OF armed_spin_eq, of unit_object "1 / 4"]
      evaluate_endpoints [OF armed_move_eq, of unit_object "1 / 4"]
      evaluate_endpoints [OF armed_fade_in_eq, of unit_object "1 / 4"]
    by (simp add: armed_spin_eq armed_move_eq armed_fade_in_eq linear_def s i)
qed

text \<open>
  C1 as stated fails. A FadeIn armed on an object of opacity 1 has the initial snapshot
  opacity 1 and writes opacity 0 at progress 0. With an easing function that is
  constantly one half, a rotation by \<open>\<pi>\<close> armed at rotation 0 writes \<open>\<pi> / 2\<close> at progress
  0, not the initial snapshot 0, and a FadeIn writes one half at progress 1, not the
  final snapshot 1.
\<close>

theorem evaluate_endpoints_counterexample:
  "armed FadeIn 1 linear unit_object = Inr armed_fade_in
   \<and> initial_state armed_fade_in = Some [''opacity'' \<mapsto> Num 1]
   \<and> evaluate armed_fade_in 0 unit_object = Inr (unit_object\<lparr>opacity := Num 0\<rparr>)
   \<and> \<not> writes_snapshot (evaluate armed_fade_in 0 unit_object) [''opacity'' \<mapsto> Num 1]
   \<and> armed (Rotate pi) 1 halfway unit_object = Inr armed_halfway_spin
   \<and> initial_state armed_halfway_spin = Some [''rotation'' \<mapsto> Num 0]
   \<and> evaluate armed_halfway_spin 0 unit_object = Inr (unit_object\<lparr>rotation := Num (pi / 2)\<rparr>)
   \<and> \<not> writes_snapshot (evaluate armed_halfway_spin 0 unit_object) [''rotation'' \<mapsto> Num 0]
   \<and> armed FadeIn 1 halfway unit_object = Inr armed_halfway_fade_in
   \<and> final_state armed_halfway_fade_in = Some [''opacity'' \<mapsto> Num 1]
   \<and> evaluate armed_halfway_fade_in 1 unit_object = Inr (unit_object\<lparr>opacity := Num (1 / 2)\<rparr>)
   \<and> \<not> writes_snapshot (evaluate armed_halfway_fade_in 1 unit_object) [''opacity'' \<mapsto> Num 1]"
proof -
  have 1: "evaluate armed_fade_in 0 unit_object = Inr (unit_object\<lparr>opacity := Num 0\<rparr>)"
    by (simp add: evaluate_def armed_fade_in_def linear_def)
  have 2: "evaluate armed_halfway_spin 0 unit_object = Inr (unit_object\<lparr>rotation := Num (pi / 2)\<rparr>)"
    by (simp add: evaluate_def armed_halfway_spin_def halfway_def lookup_def vadd_def
        vmul_def vsub_def unit_object_def)
  have 3: "evaluate armed_halfway_fade_in 1 unit_object = Inr (unit_object\<lparr>opacity := Num (1 / 2)\<rparr>)"
    by (simp add: evaluate_def armed_halfway_fade_in_def halfway_def)
  have 4: "\<not> writes_snapshot (Inr (unit_object\<lparr>opacity := Num 0\<rparr>)) [''opacity'' \<mapsto> Num 1]"
    by (simp add: writes_snapshot_def read_attr_def)
  have 5: "\<not> writes_snapshot (Inr (unit_object\<lparr>rotation := Num (pi / 2)\<rparr>)) [''rotation'' \<mapsto> Num 0]"
    by (simp add: writes_snapshot_def read_attr_def)
  have 6: "\<not> writes_snapshot (Inr (unit_object\<lparr>opacity := Num (1 / 2)\<rparr>)) [''opacity'' \<mapsto> Num 1]"
    by (simp add: writes_snapshot_def read_attr_def)
  show ?thesis
    using 4 5 6
    by (simp add: 1 2 3 armed_fade_in_eq armed_halfway_spin_eq armed_halfway_fade_in_eq)
       (simp add: armed_fade_in_def armed_halfway_spin_def armed_halfway_fade_in_def)
qed

subsection \<open>C2: the builder\<close>

text \<open>
  Claim C2 says that \<open>build\<close> returns one animation for each queued operation. The body of
  \<open>build\<close> is a placeholder that returns the empty list: with one \<open>move_to\<close> queued, the
  queue has one entry and the result has none.
\<close>

theorem build_drops_queued_operation:
  "pending_operations (move_to (AnimationBuilder unit_object) (Vec 1 0)) = [(''move_to'', Some (Vec 1 0))]
   \<and> build (move_to (AnimationBuilder unit_object) (Vec 1 0)) 1 linear = []"
  by (simp add: move_to_def AnimationBuilder_def build_def)

subsection \<open>C3: a block at or after its end\<close>

text \<open>
  Claim C3 says that a block queried at a local time at or after its duration reports
  every animation at progress 1. For a local time \<open>t\<close> that is not negative and not below
  the duration: a parallel block reports every animation, at progress 1 when its own
  duration is at most \<open>t\<close> and at \<open>t / duration\<close> of the animation otherwise; a sequential
  block reports every animation, once and in order (with what progress is not stated
  here). It is the timeline that pins every animation of an elapsed block to progress
  1, whatever the animation's own duration and the mode of the block.
\<close>

theorem elapsed_block_progress:
  assumes "0 \<le> t" and "D \<le> t"
  shows "(\<exists>res. AnimationBlock_get_active_animations (AnimationBlock anims D True) t = Inr res
            \<and> map fst res = anims)
       \<and> AnimationBlock_get_active_animations (AnimationBlock anims D False) t
           = Inr (map (\<lambda>a. (a, if t < anim_duration a then t / anim_duration a else 1)) anims)
       \<and> (\<forall>tln frame. fps tln \<noteq> 0 \<longrightarrow>
            (\<exists>contribs. Timeline_get_active_animations tln frame = Inr (concat contribs)
               \<and> length contribs = length (blocks tln)
               \<and> (\<forall>i<length (blocks tln).
                     snd (blocks tln ! i) \<le> real_of_int frame / real_of_int (fps tln)
                     \<and> duration (fst (blocks tln ! i))
                         \<le> real_of_int frame / real_of_int (fps tln) - snd (blocks tln ! i)
                     \<longrightarrow> contribs ! i = map (\<lambda>a. (a, 1)) (animations (fst (blocks tln ! i))))))"
proof (intro conjI allI impI)
  show "\<exists>res. AnimationBlock_get_active_animations (AnimationBlock anims D True) t = Inr res
            \<and> map fst res = anims"
    using assms by (rule sequential_block_all_reported)
  show "AnimationBlock_get_active_animations (AnimationBlock anims D False) t
           = Inr (map (\<lambda>a. (a, if t < anim_duration a then t / anim_duration a else 1)) anims)"
    using assms(1) by (rule parallel_block_eq)
next
  fix tln :: timeline and frame :: int
  assume f: "fps tln \<noteq> 0"
  let ?time = "real_of_int frame / real_of_int (fps tln)"
  obtain cs where cs: "timeline_loop ?time (blocks tln) [] = Inr ([] @ concat cs)"
      "list_all2 (contributes ?time) (blocks tln) cs"
    using timeline_loop_concat [of ?time "blocks tln" "[]"] by blast
  have len: "length cs = length (blocks tln)"
    using cs(2) by (simp add: list_all2_lengthD)
  have "cs ! i = map (\<lambda>a. (a, 1)) (animations (fst (blocks tln ! i)))"
    if "i < length (blocks tln)" "snd (blocks tln ! i) \<le> ?time"
       "duration (fst (blocks tln ! i)) \<le> ?time - snd (blocks tln ! i)" for i
  proof -
    have "contributes ?time (blocks tln ! i) (cs ! i)"
      using cs(2) that(1) by (rule list_all2_nthD)
    with that(2,3) show ?thesis by (simp add: contributes_def)
  qed
  with cs(1) len f
  show "\<exists>contribs. Timeline_get_active_animations tln frame = Inr (concat contribs)
               \<and> length contribs = length (blocks tln)
               \<and> (\<forall>i<length (blocks tln).
                     snd (blocks tln ! i) \<le> real_of_int frame / real_of_int (fps tln)
                     \<and> duration (fst (blocks tln ! i))
                         \<le> real_of_int frame / real_of_int (fps tln) - snd (blocks tln ! i)
                     \<longrightarrow> contribs ! i = map (\<lambda>a. (a, 1)) (animations (fst (blocks tln ! i))))"
    by (intro exI [of _ cs]) (simp add: Timeline_get_active_animations_def truediv_def)
qed

text \<open>
  C3 at a sequential and a parallel block of duration 1 holding a fade of duration 2
  and a rotation of duration 1, at local time 1, and at a timeline of one such parallel
  block at frame 1 of 1 fps.
\<close>

theorem elapsed_block_progress_witness:
  "(0::real) \<le> 1 \<and> (1::real) \<le> 1
   \<and> AnimationBlock_get_active_animations (AnimationBlock [slow_fade, spin] 1 True) 1
       = Inr [(slow_fade, 1), (spin, 1)]
   \<and> map fst [(slow_fade, 1::real), (spin, 1)] = [slow_fade, spin]
   \<and> AnimationBlock_get_active_animations (AnimationBlock [slow_fade, spin] 1 False) 1
       = Inr [(slow_fade, 1 / 2), (spin, 1)]
   \<and> Timeline_get_active_animations (add_parallel (Timeline 1) [slow_fade, spin] 1) 1
       = Inr [(slow_fade, 1), (spin, 1)]"
proof -
  have h: "(0::real) \<le> 1" "(1::real) \<le> 1" by simp_all
  have t: "Timeline_get_active_animations (add_parallel (Timeline 1) [slow_fade, spin] 1) 1
       = Inr [(slow_fade, 1), (spin, 1)]"
    by (simp add: Timeline_get_active_animations_def add_parallel_def add_block_def Timeline_def
        AnimationBlock_def truediv_def)
  have q: "AnimationBlock_get_active_animations (AnimationBlock [slow_fade, spin] 1 True) 1
       = Inr [(slow_fade, 1), (spin, 1)]"
    by (simp add: AnimationBlock_get_active_animations_def AnimationBlock_def truediv_def)
  have d: "anim_duration slow_fade = 2" "anim_duration spin = 1"
    by (simp_all add: slow_fade_def spin_def anim_duration_Animation)
  show ?thesis
    using elapsed_block_progress [OF h, of "[slow_fade, spin]"]
    by (simp add: t q d)
qed

text \<open>
  C3 as stated fails: a parallel block of duration 1 with an animation of duration 2
  reports it at progress one half at local time 1. With the duration -4 and the local
  time -3 a sequential block of two animations leaves the first one out.
\<close>

theorem elapsed_parallel_counterexample:
  "duration (AnimationBlock [slow_fade] 1 False) \<le> 1
   \<and> AnimationBlock_get_active_animations (AnimationBlock [slow_fade] 1 False) 1
       = Inr [(slow_fade, 1 / 2)]
   \<and> AnimationBlock_get_active_animations (AnimationBlock [slow_fade] 1 False) 1
       \<noteq> Inr [(slow_fade, 1)]
   \<and> duration (AnimationBlock [spin, grow] (- 4) True) \<le> - 3
   \<and> AnimationBlock_get_active_animations (AnimationBlock [spin, grow] (- 4) True) (- 3)
       = Inr [(grow, 1)]"
  by (simp add: AnimationBlock_get_active_animations_def AnimationBlock_def slow_fade_def
      anim_duration_Animation truediv_def)

subsection \<open>C5: progress inside a parallel block\<close>

text \<open>
  Claim C5 says that a parallel block reports each animation at
  \<open>min (t / duration, 1)\<close> of the animation, and at 1 when that duration is 0. The code
  compares \<open>t\<close> with the duration before it divides, so every animation whose duration
  is not positive is reported at 1: at a local time \<open>t \<ge> 0\<close> each animation is reported,
  in order and independently of the others, at \<open>min (t / duration, 1)\<close> when its duration
  is positive and at 1 otherwise, and no division raises.
\<close>

theorem parallel_progress:
  assumes "0 \<le> t"
  shows "AnimationBlock_get_active_animations (AnimationBlock anims D False) t =
     Inr (map (\<lambda>a. (a, if 0 < anim_duration a then min (t / anim_duration a) 1 else 1)) anims)"
  using assms by (auto simp: parallel_block_eq min_def)

text \<open>
  C5 at a parallel block of animations with durations 2, -1 and 1, at local time 1.
\<close>

theorem parallel_progress_witness:
  "(0::real) \<le> 1 \<and>
   AnimationBlock_get_active_animations (AnimationBlock [slow_fade, negative_fade, spin] 3 False) 1
     = Inr [(slow_fade, 1 / 2), (negative_fade, 1), (spin, 1)]"
  using parallel_progress [of 1 "[slow_fade, negative_fade, spin]" 3]
  by (simp add: slow_fade_def negative_fade_def spin_def anim_duration_Animation)

text \<open>
  C5 as stated fails at an animation of duration -1 in a parallel block of duration 2:
  at local time 1 it is reported at progress 1, and \<open>min (1 / (-1), 1)\<close> is -1.
\<close>

theorem parallel_min_counterexample:
  "(0::real) \<le> 1 \<and> 1 < duration (AnimationBlock [negative_fade] 2 False)
   \<and> AnimationBlock_get_active_animations (AnimationBlock [negative_fade] 2 False) 1
       = Inr [(negative_fade, 1)]
   \<and> min (1 / anim_duration negative_fade) 1 = - 1
   \<and> AnimationBlock_get_active_animations (AnimationBlock [negative_fade] 2 False) 1
       \<noteq> Inr [(negative_fade, min (1 / anim_duration negative_fade) 1)]"
  by (simp add: AnimationBlock_get_active_animations_def AnimationBlock_def negative_fade_def
      anim_duration_Animation)

subsection \<open>C6: the active animations of a timeline\<close>

text \<open>
  Claim C6: \<open>Timeline.get_active_animations(frame)\<close> computes \<open>time = frame / fps\<close>,
  which raises when \<open>fps\<close> is 0; otherwise the result is the concatenation, in block
  order, of one contribution for each block: nothing for a block that starts after
  \<open>time\<close>, every animation at progress 1 for a block with \<open>time - start\<close> at or beyond
  its duration, and the pairs of the block's own \<open>get_active_animations(time - start)\<close>
  for every other block.
\<close>

theorem timeline_active_concat:
  "(fps tln = 0 \<longrightarrow> Timeline_get_active_animations tln frame = Inl ZeroDivisionError)
   \<and> (fps tln \<noteq> 0 \<longrightarrow>
        (\<exists>contribs. Timeline_get_active_animations tln frame = Inr (concat contribs)
           \<and> list_all2 (contributes (real_of_int frame / real_of_int (fps tln)))
                (blocks tln) contribs))"
  using timeline_loop_concat [of "real_of_int frame / real_of_int (fps tln)" "blocks tln" "[]"]
  by (simp add: Timeline_get_active_animations_def truediv_def)

text \<open>
  C6 at a timeline of 2 fps with a sequential block of duration 2, a parallel block of
  duration 2 and a parallel block of duration 1, at frame 5, and at a timeline of 0 fps.
\<close>

theorem timeline_active_concat_witness:
  "fps three_blocks \<noteq> 0
   \<and> Timeline_get_active_animations three_blocks 5
       = Inr (concat [[(spin, 1), (grow, 1)], [(slow_fade, 1 / 4)], []])
   \<and> list_all2 (contributes (real_of_int 5 / real_of_int (fps three_blocks)))
        (blocks three_blocks) [[(spin, 1), (grow, 1)], [(slow_fade, 1 / 4)], []]
   \<and> fps (Timeline 0) = 0
   \<and> Timeline_get_active_animations (Timeline 0) 5 = Inl ZeroDivisionError"
proof -
  have b: "AnimationBlock_get_active_animations (AnimationBlock [slow_fade] 2 False) (1 / 2)
      = Inr [(slow_fade, 1 / 4)]"
    by (simp add: AnimationBlock_get_active_animations_def AnimationBlock_def slow_fade_def
        anim_duration_Animation truediv_def)
  have d: "duration (AnimationBlock anims D s) = D"
    and a: "animations (AnimationBlock anims D s) = anims" for anims D s
    by (simp_all add: AnimationBlock_def)
  have e: "Timeline_get_active_animations three_blocks 5
       = Inr [(spin, 1), (grow, 1), (slow_fade, 1 / 4)]"
    by (simp add: Timeline_get_active_animations_def blocks_three_blocks fps_three_blocks
        truediv_def d a b)
  have c: "list_all2 (contributes (5 / 2))
        (blocks three_blocks) [[(spin, 1), (grow, 1)], [(slow_fade, 1 / 4)], []]"
    by (simp add: blocks_three_blocks contributes_def d a b)
  show ?thesis
    using timeline_active_concat [of three_blocks 5] timeline_active_concat [of "Timeline 0" 5] c
    by (simp add: e fps_three_blocks) (simp add: Timeline_def)
qed

subsection \<open>C7: the number of frames\<close>

text \<open>
  Claim C7 says that \<open>total_frames()\<close> is \<open>floor (total_duration \<cdot> fps) + 1\<close>. The code
  converts with \<open>int\<close>, which truncates toward zero: \<open>total_frames()\<close> is the truncation
  of \<open>total_duration \<cdot> fps\<close> plus 1, which is \<open>floor (total_duration \<cdot> fps) + 1\<close>
  whenever \<open>total_duration \<cdot> fps\<close> is not negative; with 30 fps and a total duration of
  2 it is 61.
\<close>

theorem total_frames_truncates:
  "total_frames tln = py_int (total_duration tln * real_of_int (fps tln)) + 1
   \<and> (0 \<le> total_duration tln * real_of_int (fps tln) \<longrightarrow>
        total_frames tln = \<lfloor>total_duration tln * real_of_int (fps tln)\<rfloor> + 1)
   \<and> (fps tln = 30 \<and> total_duration tln = 2 \<longrightarrow> total_frames tln = 61)"
  by (simp add: total_frames_def py_int_def)

text \<open>
  C7 at a timeline of 30 fps with one block of duration 2.
\<close>

theorem total_frames_truncates_witness:
  "fps (add_parallel (Timeline 30) [] 2) = 30 \<and> total_duration (add_parallel (Timeline 30) [] 2) = 2
   \<and> 0 \<le> total_duration (add_parallel (Timeline 30) [] 2) * real_of_int (fps (add_parallel (Timeline 30) [] 2))
   \<and> total_frames (add_parallel (Timeline 30) [] 2) = 61"
  using total_frames_truncates [of "add_parallel (Timeline 30) [] 2"]
  by (simp add: add_parallel_def add_block_def Timeline_def Let_def)

text \<open>
  C7 as stated fails at a timeline of 30 fps with one block of duration -1/20: the
  product is -3/2, \<open>total_frames()\<close> is 0 and the floor plus 1 is -1.
\<close>

theorem total_frames_floor_counterexample:
  "total_frames (add_parallel (Timeline 30) [] (- 1 / 20))
     \<noteq> \<lfloor>total_duration (add_parallel (Timeline 30) [] (- 1 / 20))
          * real_of_int (fps (add_parallel (Timeline 30) [] (- 1 / 20)))\<rfloor> + 1"
proof -
  have f: "\<lfloor>- (3::real) / 2\<rfloor> = - 2" by (simp add: floor_eq_iff)
  have c: "\<lceil>- (3::real) / 2\<rceil> = - 1" by (simp add: ceiling_eq_iff)
  show ?thesis
    using f c by (simp add: total_frames_def py_int_def add_parallel_def add_block_def Timeline_def Let_def)
qed

subsection \<open>C8: blocks are contiguous\<close>

text \<open>
  Claim C8: after every sequence of \<open>add_block\<close>, \<open>add_sequential\<close>, \<open>add_parallel\<close> and
  \<open>reset\<close> operations on a new timeline, each block starts at the total of the durations
  of the blocks before it and the total duration is the total of all block durations.
  The operations change the timeline in two ways only: each of the three add operations
  keeps the blocks there are, in their order, and appends the one block built from its
  arguments, starting at the old total duration, to which the duration is added;
  \<open>reset\<close> clears all blocks and the total duration. None changes \<open>fps\<close>.
\<close>

theorem timeline_blocks_contiguous:
  "starts_contiguous (run_ops (Timeline f) ops)
   \<and> run_ops (Timeline f) (ops @ [op]) = apply_op (run_ops (Timeline f) ops) op
   \<and> apply_op tln (AddBlock anims d s) = add_block tln anims d s
   \<and> apply_op tln (AddSequential anims d) = add_sequential tln anims d
   \<and> apply_op tln (AddParallel anims d) = add_parallel tln anims d
   \<and> apply_op tln Reset = reset tln
   \<and> add_block tln anims d s =
         tln\<lparr>blocks := blocks tln @ [(AnimationBlock anims d s, total_duration tln)],
             total_duration := total_duration tln + d\<rparr>
   \<and> add_sequential tln anims d =
         tln\<lparr>blocks := blocks tln @ [(AnimationBlock anims d True, total_duration tln)],
             total_duration := total_duration tln + d\<rparr>
   \<and> add_parallel tln anims d =
         tln\<lparr>blocks := blocks tln @ [(AnimationBlock anims d False, total_duration tln)],
             total_duration := total_duration tln + d\<rparr>
   \<and> reset tln = tln\<lparr>blocks := [], total_duration := 0\<rparr>"
  using starts_contiguous_run_ops [OF starts_contiguous_Timeline, of f ops]
  by (simp add: run_ops_def add_sequential_def add_parallel_def add_block_def reset_def Let_def)

text \<open>
  C8 at a sequential block of duration 2 followed by a parallel block of duration 3,
  and a reset after them.
\<close>

theorem timeline_blocks_contiguous_witness:
  "starts_contiguous (run_ops (Timeline 30) [AddSequential [] 2, AddParallel [] 3])
   \<and> blocks (run_ops (Timeline 30) [AddSequential [] 2, AddParallel [] 3])
       = [(AnimationBlock [] 2 True, 0), (AnimationBlock [] 3 False, 2)]
   \<and> total_duration (run_ops (Timeline 30) [AddSequential [] 2, AddParallel [] 3]) = 5
   \<and> snd (blocks (run_ops (Timeline 30) [AddSequential [] 2, AddParallel [] 3]) ! 1)
       = running_total [2]
   \<and> blocks (apply_op (run_ops (Timeline 30) [AddSequential [] 2, AddParallel [] 3]) Reset) = []"
  using timeline_blocks_contiguous [of 30 "[AddSequential [] 2, AddParallel [] 3]" Reset]
  by (simp add: run_ops_def add_sequential_def add_parallel_def add_block_def Timeline_def
      reset_def Let_def running_total_def)

subsection \<open>C9: the final snapshot of each kind\<close>

text \<open>
  Claim C9: the final snapshot of Move is the target position given at construction;
  that of Rotate is the initial rotation plus the angle; that of Scale is the initial
  scale factor times the target scale; that of FadeIn is opacity 1 and that of FadeOut
  opacity 0. On floats the sum and the product of values are those of the numbers.
\<close>

theorem capture_final_state_derivation:
  "capture_final_state (Move target) init = Inr [''position'' \<mapsto> target]
   \<and> (init ''rotation'' = Some r \<longrightarrow>
        capture_final_state (Rotate angle) init = Inr [''rotation'' \<mapsto> vadd r (Num angle)])
   \<and> (init ''scale_factor'' = Some s \<longrightarrow>
        capture_final_state (Scale target_scale) init = Inr [''scale_factor'' \<mapsto> vmul s (Num target_scale)])
   \<and> capture_final_state FadeIn init = Inr [''opacity'' \<mapsto> Num 1]
   \<and> capture_final_state FadeOut init = Inr [''opacity'' \<mapsto> Num 0]
   \<and> vadd (Num r0) (Num angle) = Num (r0 + angle)
   \<and> vmul (Num s0) (Num target_scale) = Num (s0 * target_scale)"
  by (simp add: lookup_def vadd_def vmul_def)

text \<open>
  C9 at a rotation by 2 and a scaling by 3 of an object with rotation 0 and scale
  factor 1.
\<close>

theorem capture_final_state_derivation_witness:
  "governed (Rotate 2) unit_object ''rotation'' = Some (Num 0)
   \<and> capture_final_state (Rotate 2) (governed (Rotate 2) unit_object) = Inr [''rotation'' \<mapsto> Num 2]
   \<and> governed (Scale 3) unit_object ''scale_factor'' = Some (Num 1)
   \<and> capture_final_state (Scale 3) (governed (Scale 3) unit_object) = Inr [''scale_factor'' \<mapsto> Num 3]"
  using capture_final_state_derivation [of "Vec 0 0" "governed (Rotate 2) unit_object" "Num 0" 2 "Num 1" 3 0 1]
    capture_final_state_derivation [of "Vec 0 0" "governed (Scale 3) unit_object" "Num 0" 2 "Num 1" 3 0 1]
  by (simp add: unit_object_def vadd_def vmul_def)

subsection \<open>C10: animations that have not started\<close>

text \<open>
  Claim C10 says that a sequential block leaves out an animation whose slice has not
  started. This holds at every local time \<open>t \<ge> 0\<close>: when \<open>t\<close> is below the start \<open>i * d\<close> of
  the slice of the animation at index \<open>i\<close>, the result holds the first \<open>k\<close> animations of
  the block only, for some \<open>k \<le> i\<close>, so the animation at index \<open>i\<close> and all after it are
  left out.
\<close>

theorem sequential_not_started_omitted:
  assumes "0 \<le> t" and "i < length anims"
    and "t < real i * per_animation_duration (AnimationBlock anims D True)"
  shows "\<exists>res. AnimationBlock_get_active_animations (AnimationBlock anims D True) t = Inr res
           \<and> length res \<le> i \<and> map fst res = take (length res) anims"
proof -
  let ?d = "D / real (length anims)"
  have ne: "anims \<noteq> []" using assms(2) by auto
  have per: "per_animation_duration (AnimationBlock anims D True) = ?d"
    using ne by (rule per_animation_duration_sequential)
  have pos: "0 < real i * ?d" using assms(1,3) per by simp
  have "0 < ?d"
  proof (rule ccontr)
    assume "\<not> 0 < ?d"
    then have "?d \<le> 0" by simp
    then have "real i * ?d \<le> 0" by (intro mult_nonneg_nonpos) simp_all
    with pos show False by linarith
  qed
  then have D: "0 < D" using ne by (simp add: zero_less_divide_iff)
  obtain k where k: "k \<le> length anims"
      "AnimationBlock_get_active_animations (AnimationBlock anims D True) t
         = Inr (map (\<lambda>j. (anims ! j, progress_in_slice ?d t j)) [0..<k])"
      "\<forall>j<length anims. real j * ?d \<le> t \<longleftrightarrow> j < k"
    using sequential_block_prefix [OF ne D refl, of t] by blast
  from k(3) assms(2,3) per have "\<not> i < k" by auto
  then have "k \<le> i" by simp
  moreover have "map fst (map (\<lambda>j. (anims ! j, progress_in_slice ?d t j)) [0..<k]) = take k anims"
    using k(1) by (simp add: o_def map_nth_upt_take)
  ultimately show ?thesis using k(2) by simp
qed

text \<open>
  C10 at the block of a rotation and a scaling with duration 2, at local time 1/2: the
  scaling, whose slice starts at 1, is not in the result.
\<close>

theorem sequential_not_started_omitted_witness:
  "(0::real) \<le> 1 / 2 \<and> (1::nat) < length [spin, grow]
   \<and> 1 / 2 < real (1::nat) * per_animation_duration (AnimationBlock [spin, grow] 2 True)
   \<and> AnimationBlock_get_active_animations (AnimationBlock [spin, grow] 2 True) (1 / 2)
       = Inr [(spin, 1 / 2)]"
proof -
  have e: "AnimationBlock_get_active_animations (AnimationBlock [spin, grow] 2 True) (1 / 2)
       = Inr [(spin, 1 / 2)]"
    by (simp add: AnimationBlock_get_active_animations_def AnimationBlock_def truediv_def)
  have p: "per_animation_duration (AnimationBlock [spin, grow] 2 True) = 1"
    by (simp add: AnimationBlock_def)
  show ?thesis
    using sequential_not_started_omitted [of "1 / 2" 1 "[spin, grow]" 2] by (simp add: e p)
qed

text \<open>
  C10 as stated fails at a negative local time in a block of negative duration: with
  two animations and the duration -2 the slice duration is -1, and at local time -3/2,
  which is below the start -1 of the slice at index 1, the animation at index 1 is
  reported at progress 1.
\<close>

theorem sequential_not_started_counterexample:
  "per_animation_duration (AnimationBlock [spin, grow] (- 2) True) = - 1
   \<and> (- 3 / 2 :: real) < real (1::nat) * per_animation_duration (AnimationBlock [spin, grow] (- 2) True)
   \<and> [spin, grow] ! 1 = grow
   \<and> AnimationBlock_get_active_animations (AnimationBlock [spin, grow] (- 2) True) (- 3 / 2)
       = Inr [(grow, 1)]"
  by (simp add: AnimationBlock_get_active_animations_def AnimationBlock_def truediv_def)

end
